theory Spec2Isabelle
  imports Main
begin

section \<open>The AMQP adapter of message_queue/adapters/amqp_adapter.py\<close>

text \<open>
  The adapter is a class with mutable attributes that delegates to the pika client.
  The embedding passes the adapter's attributes explicitly (a record, returned updated)
  and returns, with every operation, the list of calls the operation makes on its
  collaborators (the pika connection and channel, the module logger and the worker
  callback), in the order the source makes them. An exception is a value: every operation
  returns \<open>Inl e\<close> when it leaves by raising \<open>e\<close> and \<open>Inr ()\<close> when it returns.

  pika itself is outside the repository. Calls on a live connection or channel are
  recorded and return; the two places where the source handles an exception raised inside
  pika (the \<open>try\<close> of \<open>connect\<close> and the \<open>try\<close> of \<open>consume\<close>) take the outcome of
  the pika call as a parameter. A call on an attribute that holds \<open>None\<close> raises
  \<open>AttributeError\<close>, as in Python. The number of nested calls the interpreter still
  allows is a parameter of \<open>connect\<close>, the one operation that calls itself.
\<close>

subsection \<open>Values, exceptions and the objects handed to pika\<close>

datatype pyval = PyNone | PyBool bool | PyInt int | PyStr string

text \<open>
  \<open>Error\<close> stands for any exception derived from \<open>Exception\<close> other than
  \<open>AttributeError\<close> and \<open>RecursionError\<close> (pika's connection errors, whatever a
  worker raises); \<open>RecursionError\<close> is what the interpreter raises when the call stack
  is full (a \<open>RuntimeError\<close> before Python 3.5);
  \<open>KeyboardInterrupt\<close> and \<open>SystemExit\<close> derive from \<open>BaseException\<close> only, so
  \<open>except Exception\<close> lets them through.
\<close>

datatype exn =
  AttributeError string | RecursionError | KeyboardInterrupt | SystemExit | Error string

fun is_Exception :: "exn \<Rightarrow> bool" where
  "is_Exception (AttributeError _) = True"
| "is_Exception RecursionError = True"
| "is_Exception KeyboardInterrupt = False"
| "is_Exception SystemExit = False"
| "is_Exception (Error _) = True"

type_synonym connection_id = nat
type_synonym channel_id = nat

text \<open>\<open>pika.ConnectionParameters(host, port, vhost, credentials)\<close> with
  \<open>pika.PlainCredentials(user, password)\<close>.\<close>

record connection_parameters =
  param_host :: string
  param_port :: int
  param_virtual_host :: string
  param_credentials :: "string \<times> string"

text \<open>\<open>pika.BasicProperties\<close>, reduced to the two fields the adapter sets.\<close>

record basic_properties =
  content_type :: pyval
  delivery_mode :: pyval

text \<open>The delivery metadata \<open>method\<close> that pika passes to a consumer callback (a
  \<open>Basic.Deliver\<close>).\<close>

record deliver_method =
  consumer_tag :: string
  delivery_tag :: nat
  redelivered :: bool

text \<open>
  The dictionary returned by \<open>message.get_content()\<close>: the class \<open>Message\<close> is not
  part of the adapter module; \<open>format_message\<close> reads the keys \<open>'properties'\<close> (a
  dictionary) and \<open>'body'\<close> of it.
\<close>

record message_content =
  content_properties :: "string \<rightharpoonup> pyval"
  content_body :: string

text \<open>The dictionary \<open>_message\<close> built by \<open>format_message\<close>, which \<open>send\<close> passes
  to \<open>basic_publish\<close> as keyword arguments.\<close>

record amqp_message =
  amqp_body :: string
  amqp_routing_key :: "string option"
  amqp_exchange :: pyval
  amqp_properties :: basic_properties

text \<open>
  The keyword arguments of \<open>configurate_queue\<close>, with the types its docstring gives
  them; \<open>None\<close> is an absent key. The value of \<open>arguments\<close> is itself \<open>None\<close> or a
  dictionary.
\<close>

record kwargs =
  kw_queue :: "string option"
  kw_basic_ack :: "bool option"
  kw_prefetch_count :: "int option"
  kw_passive :: "bool option"
  kw_durable :: "bool option"
  kw_exclusive :: "bool option"
  kw_auto_delete :: "bool option"
  kw_arguments :: "(string \<times> pyval) list option option"

text \<open>The calls the adapter makes on its collaborators.\<close>

datatype call =
    BlockingConnection connection_parameters
  | Connection_channel connection_id
  | Queue_declare channel_id string bool bool bool bool "(string \<times> pyval) list option"
  | Basic_qos channel_id int
  | Basic_publish channel_id amqp_message
  | Basic_consume channel_id "string option"
  | Start_consuming channel_id
  | Stop_consuming channel_id
  | Basic_ack channel_id nat
  | Channel_close channel_id
  | Connection_close connection_id
  | Worker_call channel_id deliver_method basic_properties string
  | Log_debug_connected
  | Log_warning_could_not_connect exn
  | Log_debug_queue_configured string bool int
  | Log_debug_amqp_message amqp_message

text \<open>
  A worker is the caller's callback \<open>worker(channel, method, properties, body)\<close>: it
  returns (\<open>None\<close>) or raises (\<open>Some e\<close>).
\<close>

type_synonym worker = "channel_id \<Rightarrow> deliver_method \<Rightarrow> basic_properties \<Rightarrow> string \<Rightarrow> exn option"

text \<open>
  The attributes of an \<open>AMQPAdapter\<close>. \<open>queue\<close>, \<open>connection\<close> and \<open>channel\<close> hold
  \<open>None\<close> or a value; \<open>basic_ack\<close>, \<open>prefetch_count\<close> and \<open>_consume_worker\<close> do not
  exist (\<open>None\<close>) until \<open>configurate_queue\<close> and \<open>consume\<close> assign them.
\<close>

record adapter =
  queue :: "string option"
  host :: string
  credentials :: "string \<times> string"
  parameters :: connection_parameters
  connection :: "connection_id option"
  channel :: "channel_id option"
  basic_ack :: "bool option"
  prefetch_count :: "int option"
  consume_worker :: "worker option"

type_synonym outcome = "exn + unit"

subsection \<open>Dictionary lookup and truth of a queue name\<close>

text \<open>\<open>d.get(key, default)\<close>, applied to the looked-up entry.\<close>

definition dict_get :: "'a option \<Rightarrow> 'a \<Rightarrow> 'a" where
  "dict_get entry dflt = (case entry of None \<Rightarrow> dflt | Some v \<Rightarrow> v)"

text \<open>Python's truth value of \<open>self.queue\<close>: \<open>None\<close> and the empty string are false.\<close>

definition truthy :: "string option \<Rightarrow> bool" where
  "truthy q = (case q of None \<Rightarrow> False | Some s \<Rightarrow> s \<noteq> [])"

subsection \<open>configurate_queue\<close>

definition configurate_queue :: "adapter \<Rightarrow> kwargs \<Rightarrow> outcome \<times> adapter \<times> call list" where
  "configurate_queue self kw =
     (if \<not> truthy (queue self) then
        let q = dict_get (kw_queue kw) [];
            ba = dict_get (kw_basic_ack kw) True;
            pc = dict_get (kw_prefetch_count kw) 0;
            self1 = self\<lparr>queue := Some q, basic_ack := Some ba, prefetch_count := Some pc\<rparr>
        in case channel self1 of
             None \<Rightarrow> (Inl (AttributeError ''queue_declare''), self1, [])
           | Some ch \<Rightarrow>
               (Inr (), self1,
                [Queue_declare ch q
                   (dict_get (kw_passive kw) False)
                   (dict_get (kw_durable kw) True)
                   (dict_get (kw_exclusive kw) False)
                   (dict_get (kw_auto_delete kw) False)
                   (dict_get (kw_arguments kw) None)]
                @ (if pc > 0 then [Basic_qos ch pc] else [])
                @ [Log_debug_queue_configured q ba pc])
      else (Inr (), self, []))"

subsection \<open>connect and the constructor\<close>

text \<open>
  What one pass through the \<open>try\<close> block of \<open>connect\<close> meets: both pika calls
  return, or \<open>pika.BlockingConnection\<close> raises, or it returns a connection whose
  \<open>channel()\<close> raises.
\<close>

datatype attempt =
    Opened connection_id channel_id
  | Connection_raises exn
  | Channel_raises connection_id exn

text \<open>
  \<open>opens k\<close> is what the \<open>k\<close>-th attempt from now meets. The handler
  \<open>except Exception\<close> logs a warning and calls \<open>connect\<close> again, from inside the
  handler; any other exception leaves \<open>connect\<close>. Every retry is therefore one more
  frame on the call stack. \<open>depth\<close> is the number of nested calls of \<open>connect\<close> the
  interpreter still allows (its recursion limit, 1000 unless changed, less the frames in
  use): a call made when none is left raises \<open>RecursionError\<close>, and since that call
  stands in the handler and not in the \<open>try\<close> block, the exception leaves every
  enclosing \<open>connect\<close>.
\<close>

fun connect :: "nat \<Rightarrow> (nat \<Rightarrow> attempt) \<Rightarrow> adapter \<Rightarrow> outcome \<times> adapter \<times> call list" where
  "connect 0 opens self = (Inl RecursionError, self, [])"
| "connect (Suc depth) opens self =
     (case opens 0 of
        Opened c ch \<Rightarrow>
          (Inr (), self\<lparr>connection := Some c, channel := Some ch\<rparr>,
           [BlockingConnection (parameters self), Connection_channel c, Log_debug_connected])
      | Connection_raises e \<Rightarrow>
          if is_Exception e then
            (case connect depth (\<lambda>k. opens (Suc k)) self of
               (r, self', cs) \<Rightarrow>
                 (r, self',
                  [BlockingConnection (parameters self), Log_warning_could_not_connect e] @ cs))
          else (Inl e, self, [BlockingConnection (parameters self)])
      | Channel_raises c e \<Rightarrow>
          if is_Exception e then
            (case connect depth (\<lambda>k. opens (Suc k)) (self\<lparr>connection := Some c\<rparr>) of
               (r, self', cs) \<Rightarrow>
                 (r, self',
                  [BlockingConnection (parameters self), Connection_channel c,
                   Log_warning_could_not_connect e] @ cs))
          else (Inl e, self\<lparr>connection := Some c\<rparr>,
                [BlockingConnection (parameters self), Connection_channel c]))"

text \<open>\<open>__init__(host, port, user, password, vhost)\<close>: the attributes, then \<open>connect\<close>.\<close>

definition init ::
  "nat \<Rightarrow> (nat \<Rightarrow> attempt) \<Rightarrow> string \<Rightarrow> int \<Rightarrow> string \<Rightarrow> string \<Rightarrow> string
     \<Rightarrow> outcome \<times> adapter \<times> call list" where
  "init depth opens h p user password vhost =
     connect depth opens
       \<lparr>queue = None, host = h, credentials = (user, password),
        parameters = \<lparr>param_host = h, param_port = p, param_virtual_host = vhost,
                      param_credentials = (user, password)\<rparr>,
        connection = None, channel = None, basic_ack = None, prefetch_count = None,
        consume_worker = None\<rparr>"

subsection \<open>close\<close>

definition close :: "adapter \<Rightarrow> outcome \<times> adapter \<times> call list" where
  "close self =
     (case channel self of
        None \<Rightarrow> (Inl (AttributeError ''close''), self, [])
      | Some ch \<Rightarrow>
          (case connection self of
             None \<Rightarrow> (Inl (AttributeError ''close''), self, [Channel_close ch])
           | Some c \<Rightarrow>
               (Inr (), self\<lparr>queue := None, connection := None, channel := None\<rparr>,
                [Channel_close ch, Connection_close c])))"

subsection \<open>send and format_message\<close>

definition format_message :: "adapter \<Rightarrow> message_content \<Rightarrow> amqp_message \<times> call list" where
  "format_message self message =
     (let exchange = dict_get (content_properties message ''exchange'') (PyStr []);
          mode = dict_get (content_properties message ''delivery_mode'') (PyInt 2);
          m = \<lparr>amqp_body = content_body message,
               amqp_routing_key = queue self,
               amqp_exchange = exchange,
               amqp_properties =
                 \<lparr>content_type = PyStr ''application/json'', delivery_mode = mode\<rparr>\<rparr>
      in (m, [Log_debug_amqp_message m]))"

definition send :: "adapter \<Rightarrow> message_content \<Rightarrow> outcome \<times> adapter \<times> call list" where
  "send self message =
     (case format_message self message of
        (amqp, cs) \<Rightarrow>
          (case channel self of
             None \<Rightarrow> (Inl (AttributeError ''basic_publish''), self, cs)
           | Some ch \<Rightarrow> (Inr (), self, cs @ [Basic_publish ch amqp])))"

subsection \<open>consume, consume_callback and consume_acknowledge\<close>

definition consume_acknowledge :: "channel_id \<Rightarrow> nat \<Rightarrow> outcome \<times> call list" where
  "consume_acknowledge ch tag = (Inr (), [Basic_ack ch tag])"

text \<open>The worker's exception is not caught: the line after the worker call is not
  reached.\<close>

definition consume_callback ::
  "adapter \<Rightarrow> channel_id \<Rightarrow> deliver_method \<Rightarrow> basic_properties \<Rightarrow> string \<Rightarrow> outcome \<times> call list" where
  "consume_callback self ch m props b =
     (case consume_worker self of
        None \<Rightarrow> (Inl (AttributeError ''_consume_worker''), [])
      | Some wk \<Rightarrow>
          (case wk ch m props b of
             Some e \<Rightarrow> (Inl e, [Worker_call ch m props b])
           | None \<Rightarrow>
               (case consume_acknowledge ch (delivery_tag m) of
                  (r, cs) \<Rightarrow> (r, Worker_call ch m props b # cs))))"

text \<open>
  What happens inside pika's blocking \<open>start_consuming\<close>: the broker delivers a
  message, for which pika calls the registered callback \<open>self.consume_callback\<close> with
  the channel, or an exception is raised in the loop (an interrupt signal, a pika error).
  An exception of the callback leaves the loop too. When the events are used up the loop
  returns (the consumer was cancelled).
\<close>

datatype broker_event =
    Delivery deliver_method basic_properties string
  | Raised exn

fun start_consuming :: "adapter \<Rightarrow> channel_id \<Rightarrow> broker_event list \<Rightarrow> outcome \<times> call list" where
  "start_consuming self ch [] = (Inr (), [])"
| "start_consuming self ch (Raised e # evs) = (Inl e, [])"
| "start_consuming self ch (Delivery m props b # evs) =
     (case consume_callback self ch m props b of
        (Inl e, cs) \<Rightarrow> (Inl e, cs)
      | (Inr u, cs) \<Rightarrow>
          (case start_consuming self ch evs of (r, cs') \<Rightarrow> (r, cs @ cs')))"

definition consume ::
  "adapter \<Rightarrow> worker \<Rightarrow> broker_event list \<Rightarrow> outcome \<times> adapter \<times> call list" where
  "consume self wk evs =
     (let self1 = self\<lparr>consume_worker := Some wk\<rparr>
      in case channel self1 of
           None \<Rightarrow> (Inl (AttributeError ''basic_consume''), self1, [])
         | Some ch \<Rightarrow>
             (case start_consuming self1 ch evs of
                (Inr u, cs) \<Rightarrow>
                  (Inr u, self1, [Basic_consume ch (queue self1), Start_consuming ch] @ cs)
              | (Inl e, cs) \<Rightarrow>
                  if e = KeyboardInterrupt then
                    (case close self1 of
                       (r, self2, cs2) \<Rightarrow>
                         (r, self2,
                          [Basic_consume ch (queue self1), Start_consuming ch] @ cs
                          @ [Stop_consuming ch] @ cs2))
                  else
                    (Inl e, self1,
                     [Basic_consume ch (queue self1), Start_consuming ch] @ cs)))"

subsection \<open>Reading a result, and the calls a property is about\<close>

definition outcome_of :: "outcome \<times> adapter \<times> call list \<Rightarrow> outcome" where
  "outcome_of r = fst r"

definition adapter_of :: "outcome \<times> adapter \<times> call list \<Rightarrow> adapter" where
  "adapter_of r = fst (snd r)"

definition calls_of :: "outcome \<times> adapter \<times> call list \<Rightarrow> call list" where
  "calls_of r = snd (snd r)"

text \<open>The acknowledgements among some calls, in order: channel and delivery tag.\<close>

fun acks :: "call list \<Rightarrow> (channel_id \<times> nat) list" where
  "acks [] = []"
| "acks (Basic_ack ch t # cs) = (ch, t) # acks cs"
| "acks (_ # cs) = acks cs"

text \<open>The channel and delivery tag of every worker call among some calls that returned
  normally, in order.\<close>

fun returned :: "worker \<Rightarrow> call list \<Rightarrow> (channel_id \<times> nat) list" where
  "returned wk [] = []"
| "returned wk (Worker_call ch m props b # cs) =
     (if wk ch m props b = None then (ch, delivery_tag m) # returned wk cs
      else returned wk cs)"
| "returned wk (_ # cs) = returned wk cs"

text \<open>The records written to the module logger, among the calls.\<close>

fun is_log :: "call \<Rightarrow> bool" where
  "is_log Log_debug_connected = True"
| "is_log (Log_warning_could_not_connect e) = True"
| "is_log (Log_debug_queue_configured q ba pc) = True"
| "is_log (Log_debug_amqp_message m) = True"
| "is_log _ = False"

text \<open>An attempt that \<open>connect\<close> answers by trying again: it raised an exception that
  \<open>except Exception\<close> catches.\<close>

fun caught :: "attempt \<Rightarrow> bool" where
  "caught (Opened c ch) = False"
| "caught (Connection_raises e) = is_Exception e"
| "caught (Channel_raises c e) = is_Exception e"

text \<open>The calls of one attempt that raised and was caught.\<close>

fun retry_calls :: "connection_parameters \<Rightarrow> attempt \<Rightarrow> call list" where
  "retry_calls ps (Opened c ch) = []"
| "retry_calls ps (Connection_raises e) =
     [BlockingConnection ps, Log_warning_could_not_connect e]"
| "retry_calls ps (Channel_raises c e) =
     [BlockingConnection ps, Connection_channel c, Log_warning_could_not_connect e]"

subsection \<open>Concrete adapters, options and workers\<close>

definition example_parameters :: connection_parameters where
  "example_parameters =
     \<lparr>param_host = ''localhost'', param_port = 5672, param_virtual_host = ''/'',
      param_credentials = (''guest'', ''guest'')\<rparr>"

text \<open>An adapter as the constructor leaves it, on connection 7 and channel 3.\<close>

definition connected_adapter :: adapter where
  "connected_adapter =
     \<lparr>queue = None, host = ''localhost'', credentials = (''guest'', ''guest''),
      parameters = example_parameters, connection = Some 7, channel = Some 3,
      basic_ack = None, prefetch_count = None, consume_worker = None\<rparr>"

definition no_kwargs :: kwargs where
  "no_kwargs =
     \<lparr>kw_queue = None, kw_basic_ack = None, kw_prefetch_count = None, kw_passive = None,
      kw_durable = None, kw_exclusive = None, kw_auto_delete = None, kw_arguments = None\<rparr>"

definition example_method :: deliver_method where
  "example_method = \<lparr>consumer_tag = ''ctag1.0'', delivery_tag = 42, redelivered = False\<rparr>"

definition example_properties :: basic_properties where
  "example_properties = \<lparr>content_type = PyStr ''application/json'', delivery_mode = PyInt 2\<rparr>"

definition returning_worker :: worker where
  "returning_worker ch m props b = None"

definition failing_worker :: worker where
  "failing_worker ch m props b = Some (Error ''ValueError'')"

text \<open>The broker refuses the first \<open>n\<close> attempts (it is still starting) and accepts
  the next one, on connection 7 and channel 3.\<close>

definition refused_until :: "nat \<Rightarrow> nat \<Rightarrow> attempt" where
  "refused_until n k =
     (if k < n then Connection_raises (Error ''AMQPConnectionError'') else Opened 7 3)"

text \<open>Two refused attempts, then connection 7 and channel 3.\<close>

definition refused_twice :: "nat \<Rightarrow> attempt" where
  "refused_twice k =
     (if k = 0 then Connection_raises (Error ''AMQPConnectionError'')
      else if k = 1 then Channel_raises 6 (Error ''ChannelClosed'')
      else Opened 7 3)"

definition jobs_kwargs :: kwargs where
  "jobs_kwargs =
     no_kwargs\<lparr>kw_queue := Some ''jobs'', kw_durable := Some False,
       kw_prefetch_count := Some 5, kw_basic_ack := Some False\<rparr>"


definition plain_message :: message_content where
  "plain_message = \<lparr>content_properties = Map.empty, content_body = ''payload''\<rparr>"

definition routed_message :: message_content where
  "routed_message =
     \<lparr>content_properties = [''exchange'' \<mapsto> PyStr ''ex1'', ''delivery_mode'' \<mapsto> PyInt 1],
      content_body = ''payload''\<rparr>"

text \<open>An adapter with the queue \<open>jobs\<close> and a stored worker.\<close>

definition consuming_adapter :: "worker \<Rightarrow> adapter" where
  "consuming_adapter wk = connected_adapter\<lparr>queue := Some ''jobs'', consume_worker := Some wk\<rparr>"

text \<open>An adapter after \<open>configurate_queue(queue='jobs')\<close> and \<open>consume\<close>.\<close>

definition configured_adapter :: adapter where
  "configured_adapter =
     connected_adapter\<lparr>queue := Some ''jobs'', basic_ack := Some True, prefetch_count := Some 0,
       consume_worker := Some returning_worker\<rparr>"

definition two_deliveries :: "broker_event list" where
  "two_deliveries =
     [Delivery example_method example_properties ''first'',
      Delivery (example_method\<lparr>delivery_tag := 43\<rparr>) example_properties ''second'']"

text \<open>A delivery, then an interrupt from the keyboard while pika waits.\<close>

definition interrupted_events :: "broker_event list" where
  "interrupted_events =
     [Delivery example_method example_properties ''first'',
      Raised KeyboardInterrupt,
      Delivery (example_method\<lparr>delivery_tag := 43\<rparr>) example_properties ''second'']"

section \<open>Properties\<close>

subsection \<open>close\<close>

text \<open>
  C6. \<open>close()\<close> on a connected adapter closes the channel first and the connection
  second, and afterwards \<open>queue\<close>, \<open>connection\<close> and \<open>channel\<close> are \<open>None\<close>; no other
  attribute of the adapter changes.
\<close>

theorem close_clears_references:
  assumes "channel self = Some ch" and "connection self = Some c"
  shows "close self =
           (Inr (), self\<lparr>queue := None, connection := None, channel := None\<rparr>,
            [Channel_close ch, Connection_close c])"
  using assms by (simp add: close_def)

theorem close_clears_references_witness:
  "channel connected_adapter = Some 3 \<and> connection connected_adapter = Some 7 \<and>
   close connected_adapter =
     (Inr (), connected_adapter\<lparr>queue := None, connection := None, channel := None\<rparr>,
      [Channel_close 3, Connection_close 7])"
  using close_clears_references [of connected_adapter 3 7]
  by (simp add: connected_adapter_def)

text \<open>
  C10. \<open>close()\<close> is not idempotent: after \<open>close()\<close> has run on a connected adapter,
  the channel and connection are \<open>None\<close>, and a second \<open>close()\<close> raises
  \<open>AttributeError\<close> on the cleared channel, makes no call and changes nothing.
\<close>

theorem close_again_raises:
  assumes "channel self = Some ch" and "connection self = Some c"
  shows "outcome_of (close self) = Inr () \<and>
         channel (adapter_of (close self)) = None \<and>
         connection (adapter_of (close self)) = None \<and>
         close (adapter_of (close self)) =
           (Inl (AttributeError ''close''), adapter_of (close self), [])"
  using assms by (simp add: close_def outcome_of_def adapter_of_def)

theorem close_again_raises_witness:
  "channel connected_adapter = Some 3 \<and> connection connected_adapter = Some 7 \<and>
   outcome_of (close connected_adapter) = Inr () \<and>
   close (adapter_of (close connected_adapter)) =
     (Inl (AttributeError ''close''), adapter_of (close connected_adapter), [])"
  using close_again_raises [of connected_adapter 3 7]
  by (simp add: connected_adapter_def)

subsection \<open>send\<close>

text \<open>
  C3. On an adapter with a live channel and a configured queue, \<open>send\<close> makes one
  publish call: the routing key is the configured queue name, the exchange is
  \<open>properties['exchange']\<close> of the message when that key is present and the empty string
  otherwise, the delivery mode is \<open>properties['delivery_mode']\<close> when present and 2
  otherwise, the content type is \<open>application/json\<close>, and the body is the message's
  body. (The formatted message is logged before it is published.)
\<close>

theorem send_publish_call:
  assumes "channel self = Some ch" and "queue self = Some q"
  shows "send self message =
           (Inr (), self,
            [Log_debug_amqp_message
               \<lparr>amqp_body = content_body message, amqp_routing_key = Some q,
                amqp_exchange =
                  (case content_properties message ''exchange'' of
                     None \<Rightarrow> PyStr [] | Some v \<Rightarrow> v),
                amqp_properties =
                  \<lparr>content_type = PyStr ''application/json'',
                   delivery_mode =
                     (case content_properties message ''delivery_mode'' of
                        None \<Rightarrow> PyInt 2 | Some v \<Rightarrow> v)\<rparr>\<rparr>,
             Basic_publish ch
               \<lparr>amqp_body = content_body message, amqp_routing_key = Some q,
                amqp_exchange =
                  (case content_properties message ''exchange'' of
                     None \<Rightarrow> PyStr [] | Some v \<Rightarrow> v),
                amqp_properties =
                  \<lparr>content_type = PyStr ''application/json'',
                   delivery_mode =
                     (case content_properties message ''delivery_mode'' of
                        None \<Rightarrow> PyInt 2 | Some v \<Rightarrow> v)\<rparr>\<rparr>])"
  using assms by (simp add: send_def format_message_def dict_get_def Let_def)

theorem send_publish_call_witness:
  "channel (connected_adapter\<lparr>queue := Some ''jobs''\<rparr>) = Some 3 \<and>
   queue (connected_adapter\<lparr>queue := Some ''jobs''\<rparr>) = Some ''jobs'' \<and>
   calls_of (send (connected_adapter\<lparr>queue := Some ''jobs''\<rparr>) plain_message) ! 1 =
     Basic_publish 3
       \<lparr>amqp_body = ''payload'', amqp_routing_key = Some ''jobs'', amqp_exchange = PyStr [],
        amqp_properties =
          \<lparr>content_type = PyStr ''application/json'', delivery_mode = PyInt 2\<rparr>\<rparr> \<and>
   calls_of (send (connected_adapter\<lparr>queue := Some ''jobs''\<rparr>) routed_message) ! 1 =
     Basic_publish 3
       \<lparr>amqp_body = ''payload'', amqp_routing_key = Some ''jobs'', amqp_exchange = PyStr ''ex1'',
        amqp_properties =
          \<lparr>content_type = PyStr ''application/json'', delivery_mode = PyInt 1\<rparr>\<rparr>"
  using send_publish_call [of "connected_adapter\<lparr>queue := Some ''jobs''\<rparr>" 3 "''jobs''" plain_message]
        send_publish_call [of "connected_adapter\<lparr>queue := Some ''jobs''\<rparr>" 3 "''jobs''" routed_message]
  by (simp add: connected_adapter_def plain_message_def routed_message_def calls_of_def)

subsection \<open>configurate_queue\<close>

text \<open>
  C4. The first call of \<open>configurate_queue\<close> (no queue name stored yet) on a live channel
  declares the queue with the given options, an absent option taking its default: queue
  the empty string, passive false, durable true, exclusive false, auto_delete false,
  arguments \<open>None\<close>, prefetch_count 0, basic_ack true. It stores queue, basic_ack and
  prefetch_count, and it makes a \<open>basic_qos\<close> call exactly when prefetch_count is
  positive, with that count.
\<close>

theorem configurate_queue_first_call:
  assumes "\<not> truthy (queue self)" and "channel self = Some ch"
  shows "configurate_queue self kw =
           (Inr (),
            self\<lparr>queue := Some (case kw_queue kw of None \<Rightarrow> [] | Some q \<Rightarrow> q),
                 basic_ack := Some (case kw_basic_ack kw of None \<Rightarrow> True | Some b \<Rightarrow> b),
                 prefetch_count :=
                   Some (case kw_prefetch_count kw of None \<Rightarrow> 0 | Some n \<Rightarrow> n)\<rparr>,
            Queue_declare ch
                (case kw_queue kw of None \<Rightarrow> [] | Some q \<Rightarrow> q)
                (case kw_passive kw of None \<Rightarrow> False | Some b \<Rightarrow> b)
                (case kw_durable kw of None \<Rightarrow> True | Some b \<Rightarrow> b)
                (case kw_exclusive kw of None \<Rightarrow> False | Some b \<Rightarrow> b)
                (case kw_auto_delete kw of None \<Rightarrow> False | Some b \<Rightarrow> b)
                (case kw_arguments kw of None \<Rightarrow> None | Some args \<Rightarrow> args)
            # (if 0 < (case kw_prefetch_count kw of None \<Rightarrow> 0 | Some n \<Rightarrow> n)
               then [Basic_qos ch (case kw_prefetch_count kw of None \<Rightarrow> 0 | Some n \<Rightarrow> n)]
               else [])
            @ [Log_debug_queue_configured
                 (case kw_queue kw of None \<Rightarrow> [] | Some q \<Rightarrow> q)
                 (case kw_basic_ack kw of None \<Rightarrow> True | Some b \<Rightarrow> b)
                 (case kw_prefetch_count kw of None \<Rightarrow> 0 | Some n \<Rightarrow> n)])
         \<and> (Basic_qos c n \<in> set (calls_of (configurate_queue self kw)) \<longleftrightarrow>
              c = ch \<and> n = (case kw_prefetch_count kw of None \<Rightarrow> 0 | Some k \<Rightarrow> k) \<and> 0 < n)"
  using assms by (auto simp add: configurate_queue_def dict_get_def calls_of_def Let_def)

theorem configurate_queue_first_call_witness:
  "\<not> truthy (queue connected_adapter) \<and> channel connected_adapter = Some 3 \<and>
   configurate_queue connected_adapter no_kwargs =
     (Inr (),
      connected_adapter\<lparr>queue := Some [], basic_ack := Some True, prefetch_count := Some 0\<rparr>,
      [Queue_declare 3 [] False True False False None,
       Log_debug_queue_configured [] True 0]) \<and>
   calls_of (configurate_queue connected_adapter (no_kwargs\<lparr>kw_prefetch_count := Some 5\<rparr>)) =
      [Queue_declare 3 [] False True False False None, Basic_qos 3 5,
       Log_debug_queue_configured [] True 5]"
  using configurate_queue_first_call [of connected_adapter 3 no_kwargs]
        configurate_queue_first_call [of connected_adapter 3 "no_kwargs\<lparr>kw_prefetch_count := Some 5\<rparr>"]
  by (simp add: connected_adapter_def no_kwargs_def truthy_def calls_of_def)




subsection \<open>The consume path\<close>

lemma acks_append: "acks (cs @ ds) = acks cs @ acks ds"
  by (induction cs rule: acks.induct) simp_all

lemma returned_append: "returned wk (cs @ ds) = returned wk cs @ returned wk ds"
  by (induction wk cs rule: returned.induct) simp_all

lemma consume_callback_acks:
  "consume_worker self = Some wk \<Longrightarrow>
   acks (snd (consume_callback self ch m props b)) =
     returned wk (snd (consume_callback self ch m props b))"
  by (simp add: consume_callback_def consume_acknowledge_def split: option.splits)

lemma start_consuming_acks:
  "consume_worker self = Some wk \<Longrightarrow>
   acks (snd (start_consuming self ch evs)) = returned wk (snd (start_consuming self ch evs))"
proof (induction self ch evs rule: start_consuming.induct)
  case (1 self ch)
  then show ?case by simp
next
  case (2 self ch e evs)
  then show ?case by simp
next
  case (3 self ch m props b evs)
  from "3.prems" have cb:
    "acks (snd (consume_callback self ch m props b)) =
       returned wk (snd (consume_callback self ch m props b))"
    by (rule consume_callback_acks)
  show ?case
  proof (cases "consume_callback self ch m props b")
    case (Pair r cs)
    then show ?thesis
      using cb 3 by (cases r; cases "start_consuming self ch evs")
        (simp_all add: acks_append returned_append)
  qed
qed

lemma close_acks: "acks (calls_of (close self)) = [] \<and> returned wk (calls_of (close self)) = []"
  by (simp add: close_def calls_of_def split: option.splits)

text \<open>
  C1, as stated, fails for a worker that raises: \<open>consume_callback\<close> leaves with the
  worker's exception and the acknowledgement is never made.
\<close>

theorem worker_raises_no_ack_counterexample:
  "consume_callback (consuming_adapter failing_worker) 3 example_method example_properties ''body'' =
     (Inl (Error ''ValueError''), [Worker_call 3 example_method example_properties ''body'']) \<and>
   acks (snd (consume_callback (consuming_adapter failing_worker) 3 example_method
                example_properties ''body'')) = []"
  by (simp add: consume_callback_def consuming_adapter_def connected_adapter_def
      failing_worker_def)

text \<open>
  C1, amended. For a delivered message \<open>consume_callback\<close> calls
  \<open>worker(channel, method, properties, body)\<close>. When the worker returns, the message is
  then acknowledged on that channel by its delivery tag; when the worker raises, the
  exception leaves \<open>consume_callback\<close> and nothing is acknowledged.
\<close>

theorem consume_callback_worker_then_ack:
  assumes "consume_worker self = Some wk"
  shows "consume_callback self ch m props b =
           (case wk ch m props b of
              None \<Rightarrow>
                (Inr (), [Worker_call ch m props b, Basic_ack ch (delivery_tag m)])
            | Some e \<Rightarrow> (Inl e, [Worker_call ch m props b]))"
  using assms by (simp add: consume_callback_def consume_acknowledge_def split: option.splits)

theorem consume_callback_worker_then_ack_witness:
  "consume_worker (consuming_adapter returning_worker) = Some returning_worker \<and>
   consume_callback (consuming_adapter returning_worker) 3 example_method example_properties
       ''body'' =
     (Inr (), [Worker_call 3 example_method example_properties ''body'', Basic_ack 3 42])"
proof -
  have stored: "consume_worker (consuming_adapter returning_worker) = Some returning_worker"
    by (simp add: consuming_adapter_def)
  show ?thesis
    using stored
      consume_callback_worker_then_ack [OF stored, of 3 example_method example_properties "''body''"]
    by (simp add: returning_worker_def example_method_def)
qed

text \<open>
  C5. For a delivered message whose worker returns normally, the adapter makes one
  acknowledgement, with the delivery tag of that message's \<open>method\<close>, after the worker
  call. Over a whole run of \<open>consume\<close>, the acknowledgements are, in order and one
  each, the delivery tags of the worker calls that returned normally.
\<close>

theorem ack_exactly_the_returned_deliveries:
  "(consume_worker self = Some wk \<and> wk ch m props b = None \<longrightarrow>
      consume_callback self ch m props b =
        (Inr (), [Worker_call ch m props b, Basic_ack ch (delivery_tag m)])) \<and>
   acks (calls_of (consume self wk evs)) = returned wk (calls_of (consume self wk evs))"
proof
  show "consume_worker self = Some wk \<and> wk ch m props b = None \<longrightarrow>
      consume_callback self ch m props b =
        (Inr (), [Worker_call ch m props b, Basic_ack ch (delivery_tag m)])"
    by (simp add: consume_callback_def consume_acknowledge_def)
next
  let ?self1 = "self\<lparr>consume_worker := Some wk\<rparr>"
  have stored: "consume_worker ?self1 = Some wk" by simp
  show "acks (calls_of (consume self wk evs)) = returned wk (calls_of (consume self wk evs))"
  proof (cases "channel self")
    case None
    then show ?thesis by (simp add: consume_def calls_of_def Let_def)
  next
    case (Some c)
    obtain r cs where run: "start_consuming ?self1 c evs = (r, cs)"
      by (cases "start_consuming ?self1 c evs")
    with start_consuming_acks [OF stored, of c evs] have eq: "acks cs = returned wk cs"
      by simp
    obtain r2 self2 cs2 where cl: "close ?self1 = (r2, self2, cs2)"
      by (cases "close ?self1") auto
    with close_acks [of ?self1 wk] have eq2: "acks cs2 = []" "returned wk cs2 = []"
      by (simp_all add: calls_of_def)
    show ?thesis
      using Some run eq cl eq2
      by (cases r) (simp_all add: consume_def calls_of_def acks_append returned_append Let_def)
  qed
qed

theorem ack_exactly_the_returned_deliveries_witness:
  "(consume_worker (consuming_adapter returning_worker) = Some returning_worker \<and>
    returning_worker 3 example_method example_properties ''first'' = None) \<and>
   consume_callback (consuming_adapter returning_worker) 3 example_method example_properties
       ''first'' =
     (Inr (), [Worker_call 3 example_method example_properties ''first'', Basic_ack 3 42]) \<and>
   acks (calls_of (consume (consuming_adapter returning_worker) returning_worker two_deliveries)) =
     [(3, 42), (3, 43)]"
proof -
  have hyp: "consume_worker (consuming_adapter returning_worker) = Some returning_worker \<and>
    returning_worker 3 example_method example_properties ''first'' = None"
    by (simp add: consuming_adapter_def returning_worker_def)
  note inst = ack_exactly_the_returned_deliveries
    [where self = "consuming_adapter returning_worker" and wk = returning_worker and ch = 3
       and m = example_method and props = example_properties and b = "''first''"
       and evs = two_deliveries]
  have cb: "consume_callback (consuming_adapter returning_worker) 3 example_method
       example_properties ''first'' =
     (Inr (), [Worker_call 3 example_method example_properties ''first'', Basic_ack 3 42])"
    using inst hyp by (simp add: example_method_def)
  have "returned returning_worker
          (calls_of (consume (consuming_adapter returning_worker) returning_worker
             two_deliveries)) =
        [(3, 42), (3, 43)]"
    by (simp add: consume_def connected_adapter_def consuming_adapter_def two_deliveries_def calls_of_def
        consume_callback_def consume_acknowledge_def returning_worker_def example_method_def
        Let_def)
  with inst have "acks (calls_of (consume (consuming_adapter returning_worker) returning_worker two_deliveries)) =
     [(3, 42), (3, 43)]"
    by simp
  with hyp cb show ?thesis by simp
qed

text \<open>
  C7. When \<open>KeyboardInterrupt\<close> leaves \<open>start_consuming\<close> on a connected adapter,
  \<open>consume\<close> stops consuming, closes the channel and then the connection, returns
  normally (the interrupt is not raised further), and leaves \<open>queue\<close>,
  \<open>connection\<close> and \<open>channel\<close> at \<open>None\<close>.
\<close>

theorem interrupt_closes_adapter:
  assumes "channel self = Some ch" and "connection self = Some c"
    and "start_consuming (self\<lparr>consume_worker := Some wk\<rparr>) ch evs = (Inl KeyboardInterrupt, cs)"
  shows "consume self wk evs =
           (Inr (),
            self\<lparr>consume_worker := Some wk, queue := None, connection := None, channel := None\<rparr>,
            [Basic_consume ch (queue self), Start_consuming ch] @ cs @
            [Stop_consuming ch, Channel_close ch, Connection_close c])"
  using assms by (simp add: consume_def close_def Let_def)

theorem interrupt_closes_adapter_witness:
  "channel connected_adapter = Some 3 \<and> connection connected_adapter = Some 7 \<and>
   start_consuming (connected_adapter\<lparr>consume_worker := Some returning_worker\<rparr>) 3
       interrupted_events =
     (Inl KeyboardInterrupt,
      [Worker_call 3 example_method example_properties ''first'', Basic_ack 3 42]) \<and>
   consume connected_adapter returning_worker interrupted_events =
     (Inr (),
      connected_adapter\<lparr>consume_worker := Some returning_worker, queue := None,
                         connection := None, channel := None\<rparr>,
      [Basic_consume 3 None, Start_consuming 3,
       Worker_call 3 example_method example_properties ''first'', Basic_ack 3 42,
       Stop_consuming 3, Channel_close 3, Connection_close 7])"
proof -
  have ch: "channel connected_adapter = Some 3" and co: "connection connected_adapter = Some 7"
    by (simp_all add: connected_adapter_def)
  have run: "start_consuming (connected_adapter\<lparr>consume_worker := Some returning_worker\<rparr>) 3
       interrupted_events =
     (Inl KeyboardInterrupt,
      [Worker_call 3 example_method example_properties ''first'', Basic_ack 3 42])"
    by (simp add: interrupted_events_def consume_callback_def consume_acknowledge_def
        returning_worker_def example_method_def)
  have q: "queue connected_adapter = None"
    by (simp add: connected_adapter_def)
  show ?thesis
    using ch co run q interrupt_closes_adapter [OF ch co run] by simp
qed

subsection \<open>The basic_ack option\<close>

lemma consume_callback_basic_ack:
  "consume_callback (self\<lparr>basic_ack := x\<rparr>) ch m props b = consume_callback self ch m props b"
  by (simp add: consume_callback_def)

lemma start_consuming_basic_ack:
  "start_consuming (self\<lparr>basic_ack := x\<rparr>) ch evs = start_consuming self ch evs"
  by (induction self ch evs rule: start_consuming.induct)
    (auto simp add: consume_callback_basic_ack split: prod.splits sum.splits)

lemma close_basic_ack:
  "close (self\<lparr>basic_ack := x\<rparr>) =
     (case close self of (r, self', cs) \<Rightarrow> (r, self'\<lparr>basic_ack := x\<rparr>, cs))"
  by (simp add: close_def split: option.splits)

text \<open>
  C9. The first call of \<open>configurate_queue\<close> stores the \<open>basic_ack\<close> it is given
  (true when absent), and the only use made of the value is the debug log record of that
  same call: two calls whose options differ in \<open>basic_ack\<close> only have the same outcome,
  make the same calls on the channel and leave adapters that differ in \<open>basic_ack\<close>
  only. No later operation reads it: for an adapter and the same adapter with any other
  value of \<open>basic_ack\<close>, \<open>consume\<close>, \<open>consume_callback\<close>, \<open>send\<close> and \<open>close\<close>
  have the same outcome and make the same calls, and leave adapters that again differ in
  \<open>basic_ack\<close> only. In particular a delivered message whose worker returns is
  acknowledged when \<open>basic_ack\<close> is false.
\<close>

theorem basic_ack_is_not_read:
  "(\<not> truthy (queue self) \<longrightarrow>
      basic_ack (adapter_of (configurate_queue self kw)) =
        Some (case kw_basic_ack kw of None \<Rightarrow> True | Some v \<Rightarrow> v)) \<and>
   (\<not> truthy (queue self) \<and> channel self = Some ch \<longrightarrow>
      filter is_log (calls_of (configurate_queue self kw)) =
        [Log_debug_queue_configured
           (case kw_queue kw of None \<Rightarrow> [] | Some q \<Rightarrow> q)
           (case kw_basic_ack kw of None \<Rightarrow> True | Some v \<Rightarrow> v)
           (case kw_prefetch_count kw of None \<Rightarrow> 0 | Some n \<Rightarrow> n)]) \<and>
   filter (\<lambda>c. \<not> is_log c) (calls_of (configurate_queue self (kw\<lparr>kw_basic_ack := y\<rparr>))) =
     filter (\<lambda>c. \<not> is_log c) (calls_of (configurate_queue self kw)) \<and>
   outcome_of (configurate_queue self (kw\<lparr>kw_basic_ack := y\<rparr>)) =
     outcome_of (configurate_queue self kw) \<and>
   (adapter_of (configurate_queue self (kw\<lparr>kw_basic_ack := y\<rparr>)))\<lparr>basic_ack := x\<rparr> =
     (adapter_of (configurate_queue self kw))\<lparr>basic_ack := x\<rparr> \<and>
   consume (self\<lparr>basic_ack := x\<rparr>) wk evs =
     (case consume self wk evs of (r, self', cs) \<Rightarrow> (r, self'\<lparr>basic_ack := x\<rparr>, cs)) \<and>
   consume_callback (self\<lparr>basic_ack := x\<rparr>) ch m props b = consume_callback self ch m props b \<and>
   send (self\<lparr>basic_ack := x\<rparr>) message =
     (case send self message of (r, self', cs) \<Rightarrow> (r, self'\<lparr>basic_ack := x\<rparr>, cs)) \<and>
   close (self\<lparr>basic_ack := x\<rparr>) =
     (case close self of (r, self', cs) \<Rightarrow> (r, self'\<lparr>basic_ack := x\<rparr>, cs)) \<and>
   (consume_worker self = Some wk \<and> wk ch m props b = None \<longrightarrow>
      consume_callback (self\<lparr>basic_ack := Some False\<rparr>) ch m props b =
        (Inr (), [Worker_call ch m props b, Basic_ack ch (delivery_tag m)]))"
proof (intro conjI)
  show "\<not> truthy (queue self) \<longrightarrow>
      basic_ack (adapter_of (configurate_queue self kw)) =
        Some (case kw_basic_ack kw of None \<Rightarrow> True | Some v \<Rightarrow> v)"
    by (simp add: configurate_queue_def adapter_of_def dict_get_def Let_def
        split: option.splits)
next
  show "\<not> truthy (queue self) \<and> channel self = Some ch \<longrightarrow>
      filter is_log (calls_of (configurate_queue self kw)) =
        [Log_debug_queue_configured
           (case kw_queue kw of None \<Rightarrow> [] | Some q \<Rightarrow> q)
           (case kw_basic_ack kw of None \<Rightarrow> True | Some v \<Rightarrow> v)
           (case kw_prefetch_count kw of None \<Rightarrow> 0 | Some n \<Rightarrow> n)]"
    by (simp add: configurate_queue_def calls_of_def dict_get_def Let_def)
next
  show "filter (\<lambda>c. \<not> is_log c)
          (calls_of (configurate_queue self (kw\<lparr>kw_basic_ack := y\<rparr>))) =
     filter (\<lambda>c. \<not> is_log c) (calls_of (configurate_queue self kw))"
    by (simp add: configurate_queue_def calls_of_def Let_def split: option.splits)
next
  show "outcome_of (configurate_queue self (kw\<lparr>kw_basic_ack := y\<rparr>)) =
     outcome_of (configurate_queue self kw)"
    by (simp add: configurate_queue_def outcome_of_def Let_def split: option.splits)
next
  show "(adapter_of (configurate_queue self (kw\<lparr>kw_basic_ack := y\<rparr>)))\<lparr>basic_ack := x\<rparr> =
     (adapter_of (configurate_queue self kw))\<lparr>basic_ack := x\<rparr>"
    by (simp add: configurate_queue_def adapter_of_def Let_def split: option.splits)
next
  show "consume (self\<lparr>basic_ack := x\<rparr>) wk evs =
     (case consume self wk evs of (r, self', cs) \<Rightarrow> (r, self'\<lparr>basic_ack := x\<rparr>, cs))"
  proof (cases "channel self")
    case None
    then show ?thesis by (simp add: consume_def Let_def)
  next
    case (Some c)
    have swap: "self\<lparr>basic_ack := x, consume_worker := Some wk\<rparr> =
                self\<lparr>consume_worker := Some wk, basic_ack := x\<rparr>"
      by simp
    obtain r cs where run: "start_consuming (self\<lparr>consume_worker := Some wk\<rparr>) c evs = (r, cs)"
      by (cases "start_consuming (self\<lparr>consume_worker := Some wk\<rparr>) c evs")
    then have run': "start_consuming (self\<lparr>basic_ack := x, consume_worker := Some wk\<rparr>) c evs
                       = (r, cs)"
      by (simp only: swap start_consuming_basic_ack)
    have cl: "close (self\<lparr>basic_ack := x, consume_worker := Some wk\<rparr>) =
         (case close (self\<lparr>consume_worker := Some wk\<rparr>) of
            (r, self', cs) \<Rightarrow> (r, self'\<lparr>basic_ack := x\<rparr>, cs))"
      by (simp only: swap close_basic_ack)
    show ?thesis
      using Some run run' cl
      by (cases r) (simp_all add: consume_def Let_def split: prod.splits)
  qed
next
  show "consume_callback (self\<lparr>basic_ack := x\<rparr>) ch m props b =
          consume_callback self ch m props b"
    by (rule consume_callback_basic_ack)
next
  show "send (self\<lparr>basic_ack := x\<rparr>) message =
     (case send self message of (r, self', cs) \<Rightarrow> (r, self'\<lparr>basic_ack := x\<rparr>, cs))"
    by (simp add: send_def format_message_def Let_def split: option.splits)
next
  show "close (self\<lparr>basic_ack := x\<rparr>) =
     (case close self of (r, self', cs) \<Rightarrow> (r, self'\<lparr>basic_ack := x\<rparr>, cs))"
    by (rule close_basic_ack)
next
  show "consume_worker self = Some wk \<and> wk ch m props b = None \<longrightarrow>
      consume_callback (self\<lparr>basic_ack := Some False\<rparr>) ch m props b =
        (Inr (), [Worker_call ch m props b, Basic_ack ch (delivery_tag m)])"
    by (simp add: consume_callback_def consume_acknowledge_def)
qed

theorem basic_ack_is_not_read_witness:
  "\<not> truthy (queue connected_adapter) \<and>
   basic_ack (adapter_of (configurate_queue connected_adapter jobs_kwargs)) = Some False \<and>
   (\<not> truthy (queue connected_adapter) \<and> channel connected_adapter = Some 3) \<and>
   filter is_log (calls_of (configurate_queue connected_adapter jobs_kwargs)) =
     [Log_debug_queue_configured ''jobs'' False 5] \<and>
   (consume_worker configured_adapter = Some returning_worker \<and>
    returning_worker 3 example_method example_properties ''first'' = None) \<and>
   consume_callback (configured_adapter\<lparr>basic_ack := Some False\<rparr>) 3 example_method
       example_properties ''first'' =
     (Inr (), [Worker_call 3 example_method example_properties ''first'', Basic_ack 3 42]) \<and>
   consume_callback (configured_adapter\<lparr>basic_ack := Some False\<rparr>) 3 example_method
       example_properties ''first'' =
     consume_callback configured_adapter 3 example_method example_properties ''first''"
proof -
  have fresh: "\<not> truthy (queue connected_adapter)"
    and live: "channel connected_adapter = Some 3"
    by (simp_all add: connected_adapter_def truthy_def)
  have vals: "(case kw_basic_ack jobs_kwargs of None \<Rightarrow> True | Some v \<Rightarrow> v) = False"
    "(case kw_prefetch_count jobs_kwargs of None \<Rightarrow> 0 | Some n \<Rightarrow> n) = 5"
    "(case kw_queue jobs_kwargs of None \<Rightarrow> [] | Some q \<Rightarrow> q) = ''jobs''"
    by (simp_all add: jobs_kwargs_def)
  note stores = basic_ack_is_not_read
    [where self = connected_adapter and kw = jobs_kwargs and ch = 3 and x = None and y = None
       and wk = returning_worker and m = example_method and props = example_properties
       and b = "''first''" and evs = "[]" and message = plain_message]
  from stores fresh have stored:
    "basic_ack (adapter_of (configurate_queue connected_adapter jobs_kwargs)) = Some False"
    by (simp only: vals simp_thms)
  from stores fresh live have logged:
    "filter is_log (calls_of (configurate_queue connected_adapter jobs_kwargs)) =
       [Log_debug_queue_configured ''jobs'' False 5]"
    by (simp only: vals simp_thms)
  have hyp: "consume_worker configured_adapter = Some returning_worker \<and>
    returning_worker 3 example_method example_properties ''first'' = None"
    by (simp add: configured_adapter_def returning_worker_def)
  note inst = basic_ack_is_not_read
    [where self = configured_adapter and x = "Some False" and wk = returning_worker and ch = 3
       and m = example_method and props = example_properties and b = "''first''"
       and evs = "[]" and message = plain_message and kw = no_kwargs and y = None]
  from inst hyp have acked:
    "consume_callback (configured_adapter\<lparr>basic_ack := Some False\<rparr>) 3 example_method
       example_properties ''first'' =
     (Inr (), [Worker_call 3 example_method example_properties ''first'',
               Basic_ack 3 (delivery_tag example_method)])"
    by blast
  from inst have same:
    "consume_callback (configured_adapter\<lparr>basic_ack := Some False\<rparr>) 3 example_method
       example_properties ''first'' =
     consume_callback configured_adapter 3 example_method example_properties ''first''"
    by blast
  have tag: "delivery_tag example_method = 42"
    by (simp add: example_method_def)
  from acked have acked':
    "consume_callback (configured_adapter\<lparr>basic_ack := Some False\<rparr>) 3 example_method
       example_properties ''first'' =
     (Inr (), [Worker_call 3 example_method example_properties ''first'', Basic_ack 3 42])"
    by (simp only: tag)
  from fresh live stored logged hyp acked' same show ?thesis by blast
qed

subsection \<open>connect\<close>

lemma retry_calls_upt:
  "concat (map (\<lambda>k. retry_calls ps (opens k)) [0..<Suc n]) =
     retry_calls ps (opens 0) @ concat (map (\<lambda>k. retry_calls ps (opens (Suc k))) [0..<n])"
proof -
  have "[0..<Suc n] = 0 # map Suc [0..<n]"
    by (simp add: upt_conv_Cons map_Suc_upt del: upt_Suc)
  then show ?thesis by (simp add: comp_def del: upt_Suc)
qed

text \<open>While the stack allows it, \<open>connect\<close> retries up to the attempt that opens.\<close>

lemma connect_retries:
  "opens n = Opened c ch \<Longrightarrow> \<forall>k<n. caught (opens k) \<Longrightarrow> n < depth \<Longrightarrow>
   connect depth opens self =
     (Inr (), self\<lparr>connection := Some c, channel := Some ch\<rparr>,
      concat (map (\<lambda>k. retry_calls (parameters self) (opens k)) [0..<n]) @
      [BlockingConnection (parameters self), Connection_channel c, Log_debug_connected])"
proof (induction n arbitrary: depth opens self)
  case 0
  then obtain d where "depth = Suc d" by (cases depth) auto
  with 0 show ?case by simp
next
  case (Suc n)
  from Suc.prems obtain d where depth: "depth = Suc d" and less: "n < d"
    by (cases depth) auto
  let ?later = "\<lambda>k. opens (Suc k)"
  from Suc.prems have later_open: "?later n = Opened c ch"
    and later_caught: "\<forall>k<n. caught (?later k)"
    and first: "caught (opens 0)"
    by auto
  note ih = Suc.IH [of ?later, OF later_open later_caught less]
  show ?case
  proof (cases "opens 0")
    case (Opened c' ch')
    with first show ?thesis by simp
  next
    case (Connection_raises e)
    with first have "is_Exception e" by simp
    with Connection_raises ih [of self] depth show ?thesis
      by (simp add: retry_calls_upt del: upt_Suc)
  next
    case (Channel_raises c' e)
    with first have "is_Exception e" by simp
    with Channel_raises ih [of "self\<lparr>connection := Some c'\<rparr>"] depth show ?thesis
      by (simp add: retry_calls_upt del: upt_Suc)
  qed
qed

text \<open>When every attempt the stack allows is caught, \<open>RecursionError\<close> leaves
  \<open>connect\<close>: the attempts were made and logged, and no channel was stored.\<close>

lemma connect_exhausts:
  "\<forall>k<depth. caught (opens k) \<Longrightarrow>
   outcome_of (connect depth opens self) = Inl RecursionError \<and>
   channel (adapter_of (connect depth opens self)) = channel self \<and>
   calls_of (connect depth opens self) =
     concat (map (\<lambda>k. retry_calls (parameters self) (opens k)) [0..<depth])"
proof (induction depth arbitrary: opens self)
  case 0
  then show ?case by (simp add: outcome_of_def adapter_of_def calls_of_def)
next
  case (Suc depth)
  let ?later = "\<lambda>k. opens (Suc k)"
  from Suc.prems have later_caught: "\<forall>k<depth. caught (?later k)"
    and first: "caught (opens 0)"
    by auto
  note ih = Suc.IH [of ?later, OF later_caught]
  show ?case
  proof (cases "opens 0")
    case (Opened c' ch')
    with first show ?thesis by simp
  next
    case (Connection_raises e)
    with first have "is_Exception e" by simp
    with Connection_raises ih [of self] show ?thesis
      by (auto simp add: retry_calls_upt outcome_of_def adapter_of_def calls_of_def
          split: prod.splits simp del: upt_Suc)
  next
    case (Channel_raises c' e)
    with first have "is_Exception e" by simp
    with Channel_raises ih [of "self\<lparr>connection := Some c'\<rparr>"] show ?thesis
      by (auto simp add: retry_calls_upt outcome_of_def adapter_of_def calls_of_def
          split: prod.splits simp del: upt_Suc)
  qed
qed

text \<open>
  C8. Let attempt \<open>n\<close> be the one that opens the connection and its channel, every
  earlier attempt raising an exception derived from \<open>Exception\<close>. While \<open>n\<close> is below
  the number of nested calls the interpreter allows, \<open>connect\<close> does what the claim says:
  it logs a warning and tries again after each earlier attempt, and returns with the
  connection and channel of attempt \<open>n\<close> stored and every other attribute (the queue,
  \<open>None\<close> from the constructor) as it was. From that number on it does not: the retry is
  a call of \<open>connect\<close> inside the handler, the stack fills, and \<open>RecursionError\<close> leaves
  \<open>connect\<close> after as many attempts as the stack allowed, with no channel stored and
  attempt \<open>n\<close> never made.
\<close>

theorem connect_recursion_limit:
  assumes "opens n = Opened c ch" and "\<forall>k<n. caught (opens k)"
  shows "(n < depth \<longrightarrow>
            connect depth opens self =
              (Inr (), self\<lparr>connection := Some c, channel := Some ch\<rparr>,
               concat (map (\<lambda>k. retry_calls (parameters self) (opens k)) [0..<n]) @
               [BlockingConnection (parameters self), Connection_channel c,
                Log_debug_connected])) \<and>
         (depth \<le> n \<longrightarrow>
            outcome_of (connect depth opens self) = Inl RecursionError \<and>
            channel (adapter_of (connect depth opens self)) = channel self \<and>
            calls_of (connect depth opens self) =
              concat (map (\<lambda>k. retry_calls (parameters self) (opens k)) [0..<depth]))"
proof (intro conjI impI)
  assume "n < depth"
  with assms show "connect depth opens self =
      (Inr (), self\<lparr>connection := Some c, channel := Some ch\<rparr>,
       concat (map (\<lambda>k. retry_calls (parameters self) (opens k)) [0..<n]) @
       [BlockingConnection (parameters self), Connection_channel c, Log_debug_connected])"
    by (rule connect_retries)
next
  assume "depth \<le> n"
  with assms(2) have all: "\<forall>k<depth. caught (opens k)" by auto
  from connect_exhausts [OF all, of self]
  show "outcome_of (connect depth opens self) = Inl RecursionError"
    and "channel (adapter_of (connect depth opens self)) = channel self"
    and "calls_of (connect depth opens self) =
           concat (map (\<lambda>k. retry_calls (parameters self) (opens k)) [0..<depth])"
    by simp_all
qed

theorem connect_recursion_limit_witness:
  "refused_twice 2 = Opened 7 3 \<and> caught (refused_twice 0) \<and> caught (refused_twice 1) \<and>
   init 5 refused_twice ''localhost'' 5672 ''guest'' ''guest'' ''/'' =
     (Inr (), connected_adapter,
      [BlockingConnection example_parameters,
       Log_warning_could_not_connect (Error ''AMQPConnectionError''),
       BlockingConnection example_parameters, Connection_channel 6,
       Log_warning_could_not_connect (Error ''ChannelClosed''),
       BlockingConnection example_parameters, Connection_channel 7,
       Log_debug_connected]) \<and>
   outcome_of (init 2 refused_twice ''localhost'' 5672 ''guest'' ''guest'' ''/'') =
     Inl RecursionError \<and>
   channel (adapter_of (init 2 refused_twice ''localhost'' 5672 ''guest'' ''guest'' ''/'')) =
     None \<and>
   calls_of (init 2 refused_twice ''localhost'' 5672 ''guest'' ''guest'' ''/'') =
     [BlockingConnection example_parameters,
      Log_warning_could_not_connect (Error ''AMQPConnectionError''),
      BlockingConnection example_parameters, Connection_channel 6,
      Log_warning_could_not_connect (Error ''ChannelClosed'')]"
proof -
  let ?fresh = "connected_adapter\<lparr>connection := None, channel := None\<rparr>"
  have opened: "refused_twice 2 = Opened 7 3"
    by (simp add: refused_twice_def)
  have c0: "caught (refused_twice 0)" and c1: "caught (refused_twice 1)"
    by (simp_all add: refused_twice_def)
  have earlier: "\<forall>k<2. caught (refused_twice k)"
  proof (intro allI impI)
    fix k :: nat
    assume "k < 2"
    then have "k = 0 \<or> k = 1" by arith
    with c0 c1 show "caught (refused_twice k)" by auto
  qed
  have upt2: "[0..<2] = [0, Suc 0]"
    by (simp add: numeral_2_eq_2)
  have vals: "refused_twice 0 = Connection_raises (Error ''AMQPConnectionError'')"
    "refused_twice (Suc 0) = Channel_raises 6 (Error ''ChannelClosed'')"
    by (simp_all add: refused_twice_def)
  have fresh: "init d refused_twice ''localhost'' 5672 ''guest'' ''guest'' ''/'' =
                 connect d refused_twice ?fresh" for d
    by (simp add: init_def connected_adapter_def example_parameters_def)
  have ps: "parameters ?fresh = example_parameters" and ch: "channel ?fresh = None"
    and full: "connected_adapter\<lparr>connection := Some 7, channel := Some 3\<rparr> =
                 connected_adapter"
    by (simp_all add: connected_adapter_def)
  from connect_recursion_limit [OF opened earlier, of 5 ?fresh]
  have ok: "connect 5 refused_twice ?fresh =
     (Inr (), connected_adapter,
      [BlockingConnection example_parameters,
       Log_warning_could_not_connect (Error ''AMQPConnectionError''),
       BlockingConnection example_parameters, Connection_channel 6,
       Log_warning_could_not_connect (Error ''ChannelClosed''),
       BlockingConnection example_parameters, Connection_channel 7,
       Log_debug_connected])"
    by (simp add: upt2 vals ps full)
  from connect_recursion_limit [OF opened earlier, of 2 ?fresh]
  have bad: "outcome_of (connect 2 refused_twice ?fresh) = Inl RecursionError"
    "channel (adapter_of (connect 2 refused_twice ?fresh)) = None"
    "calls_of (connect 2 refused_twice ?fresh) =
     [BlockingConnection example_parameters,
      Log_warning_could_not_connect (Error ''AMQPConnectionError''),
      BlockingConnection example_parameters, Connection_channel 6,
      Log_warning_could_not_connect (Error ''ChannelClosed'')]"
    by (simp_all add: upt2 vals ps ch)
  from opened c0 c1 ok bad show ?thesis
    by (simp only: fresh)
qed

text \<open>The same at the interpreter's scale: a broker that refuses a thousand attempts and
  would accept the next, on a stack that has room for 995 nested calls.\<close>

lemma connect_broker_down_at_startup:
  "refused_until 1000 1000 = Opened 7 3 \<and>
   outcome_of (init 995 (refused_until 1000) ''localhost'' 5672 ''guest'' ''guest'' ''/'') =
     Inl RecursionError \<and>
   channel (adapter_of (init 995 (refused_until 1000) ''localhost'' 5672 ''guest'' ''guest''
                          ''/'')) = None"
proof -
  have all: "\<forall>k<995. caught (refused_until 1000 k)"
    by (simp add: refused_until_def)
  have accepts: "refused_until 1000 1000 = Opened 7 3"
    by (simp add: refused_until_def)
  show ?thesis
    using accepts connect_exhausts [OF all]
    by (simp add: init_def)
qed

end
